theory Spec2Isabelle
  imports Main "HOL-Library.AList"
begin

section \<open>cypress-ntlm-auth: connection context manager, proxy facade, ports file\<close>

text \<open>
  A shallow embedding of \<^verbatim>\<open>src/proxy/connection.context.manager.ts\<close> (the classes
  \<^verbatim>\<open>ConnectionContextManager\<close> and \<^verbatim>\<open>HttpMitmProxyFacade\<close>) and of the ports-file
  module (\<^verbatim>\<open>parsePortsFile\<close>, \<^verbatim>\<open>validatePortsFile\<close>).

  Conventions.
  \<^item> A JavaScript object used as a string-keyed table is an association list in
    property order: assigning a new key appends, assigning an existing key replaces in
    place (\<open>AList.update\<close>), \<^verbatim>\<open>delete\<close> removes the key (\<open>AList.delete\<close>), and
    \<^verbatim>\<open>for ... in\<close> visits the entries first to last.
  \<^item> Every method takes the manager's fields and returns them updated, together with
    the list of calls it made on its collaborators (sockets, contexts, the debug logger),
    in the order it made them.
  \<^item> \<^verbatim>\<open>undefined\<close> is \<open>None\<close>.
\<close>

subsection \<open>Data\<close>

text \<open>
  A \<^verbatim>\<open>net.Socket\<close>. \<open>socketId\<close> is the identity of the object: two sockets may
  report the same remote address and port. Both are \<^verbatim>\<open>undefined\<close> on a socket that is
  not connected.
\<close>

record socket =
  socketId :: nat
  remoteAddress :: "string option"
  remotePort :: "nat option"

text \<open>The fields of \<^verbatim>\<open>CompleteUrl\<close> that the manager reads.\<close>

record complete_url =
  href :: string
  isLocalhost :: bool

text \<open>
  \<^verbatim>\<open>https.AgentOptions\<close> as \<^verbatim>\<open>getAgent\<close> fills them. \<open>upstreamProxy\<close> stands for the
  proxy coordinates that the upstream proxy manager writes into the options; it is absent
  from the object literal of \<^verbatim>\<open>getAgent\<close>.
\<close>

record agent_options =
  keepAlive :: bool
  maxSockets :: nat
  rejectUnauthorized :: bool
  upstreamProxy :: "string option"

datatype agent_kind = HttpAgent | HttpsAgent | HttpProxyAgent | HttpsProxyAgent

text \<open>
  An agent is the class that was instantiated and the options it was given;
  \<^verbatim>\<open>new http.Agent()\<close> of \<^verbatim>\<open>getUntrackedAgent\<close> is given none.
\<close>

record agent =
  agentKind :: agent_kind
  agentOptions :: "agent_options option"

text \<open>
  The close listener of a context is \<^verbatim>\<open>this.removeAgentOnClose.bind(this, clientAddress)\<close>:
  it is determined by the address it is bound to.
\<close>

datatype listener = RemoveAgentOnClose string

record connection_context =
  clientAddress :: string
  contextAgent :: agent
  clientSocket :: "socket option"
  socketCloseListener :: listener
  configApiConnection :: bool

text \<open>\<^verbatim>\<open>SslTunnel\<close>; \<^verbatim>\<open>removeAndCloseAllTunnels\<close> tests \<open>target\<close> for presence.\<close>

record ssl_tunnel =
  client :: socket
  target :: "socket option"

text \<open>The calls a method makes on its collaborators.\<close>

datatype effect =
    SocketOnce socket string listener
  | SocketRemoveListener socket string listener
  | ContextDestroy connection_context string
  | SocketEnd socket
  | DebugLog "string list"

text \<open>
  The exceptions of the JavaScript run time that the code can meet, and how a call ends:
  it returns, or an exception leaves it.
\<close>

datatype js_error = SyntaxError | TypeError | Error string

datatype completion = Returned | Thrown js_error

text \<open>The value of \<^verbatim>\<open>process.env\<close> that the manager reads.\<close>

record process_env =
  NODE_TLS_REJECT_UNAUTHORIZED :: "string option"

text \<open>
  Modelled from the spec: the upstream proxy manager (\<^verbatim>\<open>IUpstreamProxyManager\<close>, whose
  source file is not among the sources) as section 4.3 configures it at start-up: the
  \<^verbatim>\<open>HTTP_PROXY\<close> and \<^verbatim>\<open>HTTPS_PROXY\<close> URLs, both optional, and the decision of the
  \<^verbatim>\<open>NO_PROXY\<close> resolver of section 4.2 for a target.
\<close>

record upstream_proxy_manager =
  httpProxyUrl :: "string option"
  httpsProxyUrl :: "string option"
  noProxyBypass :: "complete_url \<Rightarrow> bool"

text \<open>
  Modelled from the spec: the result of \<^verbatim>\<open>resolve\<close>, \<^verbatim>\<open>{direct | via(proxyUrl)}\<close>
  (section 4.3).
\<close>

datatype route = Direct | Via string

text \<open>
  The fields of \<^verbatim>\<open>ConnectionContextManager\<close>. \<open>newConnectionContext\<close> is the object
  that the injected constructor \<^verbatim>\<open>new this.ConnectionContext()\<close> returns.
\<close>

record connection_context_manager =
  agentCount :: nat
  connectionContexts :: "(string \<times> connection_context) list"
  tunnels :: "(string \<times> ssl_tunnel) list"
  upstreamProxyManager :: upstream_proxy_manager
  newConnectionContext :: connection_context

subsection \<open>Client addresses\<close>

text \<open>\<^verbatim>\<open>String(n)\<close> for a port number: its decimal digits.\<close>

definition digit_char :: "nat \<Rightarrow> char" where
  "digit_char d =
     (if d = 0 then CHR ''0'' else if d = 1 then CHR ''1'' else if d = 2 then CHR ''2''
      else if d = 3 then CHR ''3'' else if d = 4 then CHR ''4'' else if d = 5 then CHR ''5''
      else if d = 6 then CHR ''6'' else if d = 7 then CHR ''7'' else if d = 8 then CHR ''8''
      else CHR ''9'')"

function number_toString :: "nat \<Rightarrow> string" where
  "number_toString n =
     (if n < 10 then [digit_char n]
      else number_toString (n div 10) @ [digit_char (n mod 10)])"
  by pat_completeness auto
termination
  by (relation "measure (\<lambda>n. n)") auto

declare number_toString.simps [simp del]

text \<open>
  \<^verbatim>\<open>clientSocket.remoteAddress + ":" + clientSocket.remotePort\<close>; string concatenation
  renders \<^verbatim>\<open>undefined\<close> as the text \<^verbatim>\<open>undefined\<close>.
\<close>

definition getClientAddress :: "socket \<Rightarrow> string" where
  "getClientAddress clientSocket' =
     (case remoteAddress clientSocket' of None \<Rightarrow> ''undefined'' | Some a \<Rightarrow> a)
     @ '':''
     @ (case remotePort clientSocket' of None \<Rightarrow> ''undefined'' | Some p \<Rightarrow> number_toString p)"

text \<open>
  \<^verbatim>\<open>key in table\<close>. Every key the manager uses is a client address, which contains a
  colon, so it is never a property inherited from \<^verbatim>\<open>Object.prototype\<close>: the test is
  whether the table has the key.
\<close>

definition has_key :: "string \<Rightarrow> (string \<times> 'v) list \<Rightarrow> bool" where
  "has_key k table = (k \<in> fst ` set table)"

text \<open>
  \<^verbatim>\<open>key in table\<close> for an arbitrary string, as \<^verbatim>\<open>removeAgent\<close> may be given one: the
  tables are plain objects, so besides their own keys the operator finds the members they
  inherit from \<^verbatim>\<open>Object.prototype\<close>.
\<close>

definition objectPrototypeNames :: "string list" where
  "objectPrototypeNames =
     [''constructor'', ''__defineGetter__'', ''__defineSetter__'', ''hasOwnProperty'',
      ''__lookupGetter__'', ''__lookupSetter__'', ''isPrototypeOf'', ''propertyIsEnumerable'',
      ''toString'', ''valueOf'', ''__proto__'', ''toLocaleString'']"

definition js_in :: "string \<Rightarrow> (string \<times> 'v) list \<Rightarrow> bool" where
  "js_in k table = (has_key k table \<or> k \<in> set objectPrototypeNames)"

subsection \<open>Agents\<close>

text \<open>
  \<^verbatim>\<open>nodeTlsRejectUnauthorized\<close>: a variable that is unset or the empty string is falsy.
\<close>

definition nodeTlsRejectUnauthorized :: "process_env \<Rightarrow> bool" where
  "nodeTlsRejectUnauthorized env =
     (case NODE_TLS_REJECT_UNAUTHORIZED env of
        None \<Rightarrow> True
      | Some v \<Rightarrow> if v \<noteq> [] then v \<noteq> ''0'' else True)"

text \<open>
  Modelled from the spec: an \<^emph>\<open>empty\<close> proxy variable (section 4.3), one that is unset or
  the empty string.
\<close>

definition isEmpty :: "string option \<Rightarrow> bool" where
  "isEmpty v = (case v of None \<Rightarrow> True | Some s \<Rightarrow> s = [])"

text \<open>
  Modelled from the spec: the relevant proxy of section 4.3, \<^verbatim>\<open>HTTP_PROXY\<close>, which
  \<^verbatim>\<open>HTTPS_PROXY\<close> overrides for \<^verbatim>\<open>isSSL = true\<close>.
\<close>

definition relevantProxy :: "upstream_proxy_manager \<Rightarrow> bool \<Rightarrow> string option" where
  "relevantProxy mgr isSSL =
     (if isSSL \<and> \<not> isEmpty (httpsProxyUrl mgr) then httpsProxyUrl mgr else httpProxyUrl mgr)"

text \<open>
  Modelled from the spec: \<^verbatim>\<open>resolve(target, isSSL)\<close> of the upstream proxy manager
  (section 4.3), whose source file is not among the sources. The route is direct if the
  \<^verbatim>\<open>NO_PROXY\<close> resolver says bypass, or if the relevant proxy is empty.
\<close>

definition resolve :: "upstream_proxy_manager \<Rightarrow> complete_url \<Rightarrow> bool \<Rightarrow> route" where
  "resolve mgr targetHost isSSL =
     (if noProxyBypass mgr targetHost then Direct
      else case relevantProxy mgr isSSL of
             None \<Rightarrow> Direct
           | Some proxyUrl \<Rightarrow> if proxyUrl = [] then Direct else Via proxyUrl)"

text \<open>
  Modelled from the spec: \<^verbatim>\<open>setUpstreamProxyConfig(targetHost, isSSL, agentOptions)\<close>, the
  call through which \<^verbatim>\<open>getAgent\<close> consults the upstream proxy manager (section 4.3: given
  target and SSL flag, produce connection options, direct or via the upstream proxy). It
  answers whether the upstream proxy is used and, if so, writes the proxy into the options.
\<close>

definition setUpstreamProxyConfig ::
  "upstream_proxy_manager \<Rightarrow> complete_url \<Rightarrow> bool \<Rightarrow> agent_options \<Rightarrow> bool \<times> agent_options" where
  "setUpstreamProxyConfig mgr targetHost isSSL opts =
     (case resolve mgr targetHost isSSL of
        Direct \<Rightarrow> (False, opts)
      | Via proxyUrl \<Rightarrow> (True, opts\<lparr>upstreamProxy := Some proxyUrl\<rparr>))"

text \<open>\<^verbatim>\<open>getAgent\<close>.\<close>

definition getAgent ::
  "upstream_proxy_manager \<Rightarrow> process_env \<Rightarrow> bool \<Rightarrow> complete_url \<Rightarrow> agent" where
  "getAgent mgr env isSSL targetHost =
     (let opts0 = \<lparr>keepAlive = True,
                   maxSockets = 1,
                   rejectUnauthorized = (nodeTlsRejectUnauthorized env \<and> \<not> isLocalhost targetHost),
                   upstreamProxy = None\<rparr>;
          (useUpstreamProxy, opts) = setUpstreamProxyConfig mgr targetHost isSSL opts0
      in if useUpstreamProxy
         then \<lparr>agentKind = (if isSSL then HttpsProxyAgent else HttpProxyAgent),
               agentOptions = Some opts\<rparr>
         else \<lparr>agentKind = (if isSSL then HttpsAgent else HttpAgent),
               agentOptions = Some opts\<rparr>)"

subsection \<open>Connection contexts\<close>

text \<open>
  \<^verbatim>\<open>createConnectionContext\<close>. The context is stored in the table before its close
  listener is assigned; the table holds the object itself, so the stored context carries
  the listener too.
\<close>

definition createConnectionContext ::
  "connection_context_manager \<Rightarrow> process_env \<Rightarrow> socket \<Rightarrow> bool \<Rightarrow> complete_url
     \<Rightarrow> connection_context \<times> connection_context_manager \<times> effect list" where
  "createConnectionContext m env clientSocket' isSSL targetHost =
     (let clientAddress' = getClientAddress clientSocket'
      in case map_of (connectionContexts m) clientAddress' of
           Some stored \<Rightarrow> (stored, m, [])
         | None \<Rightarrow>
             (let agent' = getAgent (upstreamProxyManager m) env isSSL targetHost;
                  context = (newConnectionContext m)
                    \<lparr>clientAddress := clientAddress',
                     contextAgent := agent',
                     clientSocket := Some clientSocket',
                     socketCloseListener := RemoveAgentOnClose clientAddress'\<rparr>
              in (context,
                  m\<lparr>agentCount := agentCount m + 1,
                    connectionContexts :=
                      AList.update clientAddress' context (connectionContexts m)\<rparr>,
                  [SocketOnce clientSocket' ''close'' (RemoveAgentOnClose clientAddress'),
                   DebugLog [''Created agent for client '' @ clientAddress'
                             @ '' to target '' @ href targetHost]])))"

text \<open>\<^verbatim>\<open>getConnectionContextFromClientSocket\<close>.\<close>

definition getConnectionContextFromClientSocket ::
  "connection_context_manager \<Rightarrow> socket \<Rightarrow> connection_context option" where
  "getConnectionContextFromClientSocket m clientSocket' =
     map_of (connectionContexts m) (getClientAddress clientSocket')"

text \<open>\<^verbatim>\<open>getUntrackedAgent\<close>.\<close>

definition getUntrackedAgent ::
  "connection_context_manager \<Rightarrow> complete_url
     \<Rightarrow> agent \<times> connection_context_manager \<times> effect list" where
  "getUntrackedAgent m targetHost =
     (\<lparr>agentKind = HttpAgent, agentOptions = None\<rparr>,
      m\<lparr>agentCount := agentCount m + 1\<rparr>,
      [DebugLog [''Created untracked agent for target '' @ href targetHost]])"

text \<open>
  \<^verbatim>\<open>context.clientSocket?.removeListener("close", context.socketCloseListener)\<close>: no call
  when the context has no socket.
\<close>

definition removeCloseListener :: "connection_context \<Rightarrow> effect list" where
  "removeCloseListener context =
     (case clientSocket context of
        None \<Rightarrow> []
      | Some s \<Rightarrow> [SocketRemoveListener s ''close'' (socketCloseListener context)])"



text \<open>
  \<^verbatim>\<open>removeAgent\<close>. It returns the manager, the calls made and how the call ended. When
  \<^verbatim>\<open>clientAddress in this._connectionContexts\<close> holds for a name that is not a key of the
  table, \<^verbatim>\<open>this._connectionContexts[clientAddress]\<close> is a member of
  \<^verbatim>\<open>Object.prototype\<close>: it has no \<^verbatim>\<open>clientSocket\<close>, so the optional call
  \<^verbatim>\<open>clientSocket?.removeListener(...)\<close> is skipped, and it has no \<^verbatim>\<open>destroy\<close>, so
  calling \<^verbatim>\<open>destroy(event)\<close> throws a \<^verbatim>\<open>TypeError\<close> before anything is deleted or
  logged.
\<close>

definition removeAgent ::
  "connection_context_manager \<Rightarrow> string \<Rightarrow> string
     \<Rightarrow> connection_context_manager \<times> effect list \<times> completion" where
  "removeAgent m event clientAddress' =
     (if js_in clientAddress' (connectionContexts m)
      then (case map_of (connectionContexts m) clientAddress' of
              Some context \<Rightarrow>
                (m\<lparr>connectionContexts := AList.delete clientAddress' (connectionContexts m)\<rparr>,
                 removeCloseListener context
                 @ [ContextDestroy context event,
                    DebugLog [''Removed agent for '' @ clientAddress'
                              @ '' due to socket.'' @ event]],
                 Returned)
            | None \<Rightarrow> (m, [], Thrown TypeError))
      else (m, [], Returned))"

text \<open>\<^verbatim>\<open>removeAgentOnClose\<close>, the body of the close listener.\<close>

definition removeAgentOnClose ::
  "connection_context_manager \<Rightarrow> string
     \<Rightarrow> connection_context_manager \<times> effect list \<times> completion" where
  "removeAgentOnClose m clientAddress' = removeAgent m ''close'' clientAddress'"

subsection \<open>Tunnels\<close>

text \<open>\<^verbatim>\<open>addTunnel\<close>.\<close>

definition addTunnel ::
  "connection_context_manager \<Rightarrow> socket \<Rightarrow> socket \<Rightarrow> connection_context_manager" where
  "addTunnel m client' target' =
     m\<lparr>tunnels := AList.update (getClientAddress client')
                     \<lparr>client = client', target = Some target'\<rparr> (tunnels m)\<rparr>"

text \<open>\<^verbatim>\<open>removeTunnel\<close>.\<close>

definition removeTunnel ::
  "connection_context_manager \<Rightarrow> socket \<Rightarrow> connection_context_manager" where
  "removeTunnel m client' =
     (let clientAddress' = getClientAddress client'
      in if has_key clientAddress' (tunnels m)
         then m\<lparr>tunnels := AList.delete clientAddress' (tunnels m)\<rparr>
         else m)"

text \<open>The loop of \<^verbatim>\<open>removeAndCloseAllTunnels\<close>: the calls made for the entries given.\<close>

fun removeAndCloseAllTunnels_loop :: "(string \<times> ssl_tunnel) list \<Rightarrow> effect list" where
  "removeAndCloseAllTunnels_loop [] = []"
| "removeAndCloseAllTunnels_loop ((property, tunnel) # rest) =
     (case target tunnel of
        Some t \<Rightarrow> SocketEnd t # removeAndCloseAllTunnels_loop rest
      | None \<Rightarrow> removeAndCloseAllTunnels_loop rest)"

text \<open>\<^verbatim>\<open>removeAndCloseAllTunnels\<close>.\<close>

definition removeAndCloseAllTunnels ::
  "connection_context_manager \<Rightarrow> string \<Rightarrow> connection_context_manager \<times> effect list" where
  "removeAndCloseAllTunnels m event =
     (m\<lparr>tunnels := []\<rparr>,
      removeAndCloseAllTunnels_loop (tunnels m)
      @ [DebugLog [''Removed and closed all tunnels due to '' @ event]])"

text \<open>
  The tables the manager builds: one entry per key, and every context filed under its
  own \<open>clientAddress\<close>.
\<close>

definition wf_contexts :: "(string \<times> connection_context) list \<Rightarrow> bool" where
  "wf_contexts table =
     (distinct (map fst table) \<and> list_all (\<lambda>(k, c). clientAddress c = k) table)"

subsection \<open>The MITM proxy facade\<close>

text \<open>
  \<^verbatim>\<open>HttpMitmProxyFacade\<close>. Its one mutable field is \<^verbatim>\<open>_ntlmProxyListening\<close>; the calls
  it makes on the underlying \<^verbatim>\<open>http-mitm-proxy\<close> instance are recorded.
\<close>

record http_mitm_proxy_facade =
  ntlmProxyListening :: bool

datatype proxy_call =
    ProxyUse nat
  | ProxyListen string nat
  | ProxyClose

datatype 'a promise = Resolved 'a | Rejected string

text \<open>The state after the constructor.\<close>

definition newHttpMitmProxyFacade :: http_mitm_proxy_facade where
  "newHttpMitmProxyFacade = \<lparr>ntlmProxyListening = False\<rparr>"

text \<open>\<^verbatim>\<open>use\<close>; the module is named by a number.\<close>

definition use :: "http_mitm_proxy_facade \<Rightarrow> nat \<Rightarrow> http_mitm_proxy_facade \<times> proxy_call list" where
  "use f mod' = (f, [ProxyUse mod'])"

text \<open>
  \<^verbatim>\<open>listen\<close>. \<open>err\<close> is the argument with which the underlying proxy calls back
  (\<open>None\<close> on success) and \<open>httpPort\<close> the port it then reports.
\<close>

definition listen ::
  "http_mitm_proxy_facade \<Rightarrow> nat \<Rightarrow> string option \<Rightarrow> nat
     \<Rightarrow> string promise \<times> http_mitm_proxy_facade \<times> proxy_call list" where
  "listen f port' err httpPort =
     (case err of
        Some e \<Rightarrow> (Rejected e, f, [ProxyListen ''127.0.0.1'' port'])
      | None \<Rightarrow> (Resolved (''http://127.0.0.1:'' @ number_toString httpPort),
                 f\<lparr>ntlmProxyListening := True\<rparr>,
                 [ProxyListen ''127.0.0.1'' port']))"

text \<open>\<^verbatim>\<open>close\<close>.\<close>

definition close :: "http_mitm_proxy_facade \<Rightarrow> http_mitm_proxy_facade \<times> proxy_call list" where
  "close f =
     (if ntlmProxyListening f
      then (f\<lparr>ntlmProxyListening := False\<rparr>, [ProxyClose])
      else (f, []))"

text \<open>
  A client of the facade: the calls it makes, each \<^verbatim>\<open>listen\<close> with the answer of the
  underlying proxy. \<open>run_facade\<close> makes the calls in order on one facade and collects the
  calls that reach the underlying proxy.
\<close>

datatype facade_call =
    CallUse nat
  | CallListen nat "string option" nat
  | CallClose

fun run_facade ::
  "http_mitm_proxy_facade \<Rightarrow> facade_call list \<Rightarrow> http_mitm_proxy_facade \<times> proxy_call list" where
  "run_facade f [] = (f, [])"
| "run_facade f (CallUse mod' # calls) =
     (let (f1, made) = use f mod'; (f2, rest) = run_facade f1 calls in (f2, made @ rest))"
| "run_facade f (CallListen port' err httpPort # calls) =
     (let (answer, f1, made) = listen f port' err httpPort; (f2, rest) = run_facade f1 calls
      in (f2, made @ rest))"
| "run_facade f (CallClose # calls) =
     (let (f1, made) = close f; (f2, rest) = run_facade f1 calls in (f2, made @ rest))"

text \<open>The listens of a client that succeed.\<close>

fun successful_listen :: "facade_call \<Rightarrow> bool" where
  "successful_listen (CallListen port' None httpPort) = True"
| "successful_listen call = False"

subsection \<open>The ports file\<close>

text \<open>
  The values \<^verbatim>\<open>JSON.parse\<close> returns. An object is the list of its own properties, one
  entry per name. Of a number the module observes only whether it is zero.
\<close>

datatype json =
    JNull
  | JBool bool
  | JNumber int
  | JString string
  | JArray "json list"
  | JObject "(string \<times> json) list"

text \<open>
  The fields of the object \<^verbatim>\<open>url.parse\<close> returns that the module reads; a part the URL
  does not have is \<^verbatim>\<open>null\<close>, here \<open>None\<close>.
\<close>

record url_object =
  protocol :: "string option"
  hostname :: "string option"
  port :: "string option"

text \<open>
  How a call of \<^verbatim>\<open>parsePortsFile\<close> ends: it calls \<^verbatim>\<open>callback(ports, err)\<close> and returns,
  or an exception leaves it and the callback is not called.
\<close>

datatype outcome =
    Callback "json option" "js_error option"
  | Throws js_error

text \<open>JavaScript truthiness of a parsed value, and of a property that may be missing.\<close>

fun truthy :: "json \<Rightarrow> bool" where
  "truthy JNull = False"
| "truthy (JBool b) = b"
| "truthy (JNumber n) = (n \<noteq> 0)"
| "truthy (JString s) = (s \<noteq> [])"
| "truthy (JArray xs) = True"
| "truthy (JObject props) = True"

definition truthy_opt :: "json option \<Rightarrow> bool" where
  "truthy_opt v = (case v of None \<Rightarrow> False | Some j \<Rightarrow> truthy j)"

definition truthy_part :: "string option \<Rightarrow> bool" where
  "truthy_part v = (case v of None \<Rightarrow> False | Some s \<Rightarrow> s \<noteq> [])"

text \<open>
  \<^verbatim>\<open>ports.name\<close> for the two names the module reads, on a value that is not
  \<^verbatim>\<open>null\<close>: only an object can have the property.
\<close>

fun property :: "json \<Rightarrow> string \<Rightarrow> json option" where
  "property (JObject props) name = map_of props name"
| "property j name = None"

text \<open>
  \<^verbatim>\<open>url.parse(v)\<close>: Node's \<^verbatim>\<open>url.parse\<close> throws a \<^verbatim>\<open>TypeError\<close> when its argument is
  not a string. On strings it is the parameter \<open>urlParse\<close>.
\<close>

fun url_parse ::
  "(string \<Rightarrow> js_error + url_object) \<Rightarrow> json option \<Rightarrow> js_error + url_object" where
  "url_parse urlParse (Some (JString s)) = urlParse s"
| "url_parse urlParse v = Inl TypeError"

text \<open>The test \<^verbatim>\<open>!urltest.protocol || !urltest.hostname || !urltest.port\<close>.\<close>

definition lacks_part :: "url_object \<Rightarrow> bool" where
  "lacks_part urltest =
     (\<not> truthy_part (protocol urltest) \<or> \<not> truthy_part (hostname urltest)
      \<or> \<not> truthy_part (port urltest))"

text \<open>\<^verbatim>\<open>validatePortsFile\<close>: \<open>Inl\<close> is an exception thrown inside it.\<close>

definition validatePortsFile ::
  "(string \<Rightarrow> js_error + url_object) \<Rightarrow> json \<Rightarrow> js_error + bool" where
  "validatePortsFile urlParse ports =
     (if \<not> truthy ports then Inr False
      else if \<not> truthy_opt (property ports ''configApiUrl'')
              \<or> \<not> truthy_opt (property ports ''ntlmProxyUrl'') then Inr False
      else case url_parse urlParse (property ports ''configApiUrl'') of
        Inl thrown \<Rightarrow> Inl thrown
      | Inr urltest \<Rightarrow>
          (if lacks_part urltest then Inr False
           else case url_parse urlParse (property ports ''ntlmProxyUrl'') of
             Inl thrown \<Rightarrow> Inl thrown
           | Inr urltest' \<Rightarrow> (if lacks_part urltest' then Inr False else Inr True)))"

text \<open>
  \<^verbatim>\<open>parsePortsFile\<close>. \<open>portsFile\<close> is the path of the ports file, \<open>file\<close> its content
  (\<open>None\<close> when \<^verbatim>\<open>fs.existsSync\<close> is false), \<open>jsonParse\<close> is \<^verbatim>\<open>JSON.parse\<close>, whose
  \<^verbatim>\<open>SyntaxError\<close> is \<open>Inl\<close>.
\<close>

definition parsePortsFile ::
  "string \<Rightarrow> (string \<Rightarrow> js_error + json) \<Rightarrow> (string \<Rightarrow> js_error + url_object)
     \<Rightarrow> string option \<Rightarrow> outcome" where
  "parsePortsFile portsFile jsonParse urlParse file =
     (case file of
        Some data \<Rightarrow>
          (case jsonParse data of
             Inl err \<Rightarrow> Callback None (Some err)
           | Inr ports \<Rightarrow>
               (case validatePortsFile urlParse ports of
                  Inl thrown \<Rightarrow> Throws thrown
                | Inr True \<Rightarrow> Callback (Some ports) None
                | Inr False \<Rightarrow> Callback None (Some (Error (''Cannot parse '' @ portsFile)))))
      | None \<Rightarrow>
          Callback None
            (Some (Error (''cypress-ntlm-auth proxy does not seem to be running. It must be started before cypress. Please see the docs.'' @ portsFile))))"

subsection \<open>The request interceptor\<close>

text \<open>
  Modelled from the spec: the data of the request interceptor. Its source is not among
  the sources; only its tests are (\<^verbatim>\<open>http.proxy.spec.ts\<close>). What follows is the state
  machine of section 4.5 of the specification with the credentials of section 3. The NTLM
  engine and the credential lookup are collaborators given by interface; the origin
  (together with whatever lies on the route to it) is a state machine that answers one
  request at a time.
\<close>

datatype http_method = GET | POST | PUT | DELETE | OtherMethod string

datatype ntlm_token = Type1 string | Type3 string

record request =
  reqMethod :: http_method
  reqHost :: string
  reqPath :: string
  reqBody :: string
  authorization :: "ntlm_token option"

datatype challenge = NTLM "string option" | Negotiate "string option" | OtherScheme string

record response =
  statusCode :: nat
  statusPhrase :: string
  wwwAuthenticate :: "challenge list"
  respBody :: string

record explicit_credential =
  username :: string
  password :: string
  domain :: "string option"
  workstation :: "string option"
  ntlmVersion :: nat

datatype credential = Explicit explicit_credential | SSO

record ntlm_engine =
  createType1 :: "credential \<Rightarrow> string"
  createType3 :: "credential \<Rightarrow> string \<Rightarrow> string"

datatype handshake_state = Idle | Type1Sent | Type2Received | Type3Sent | Authenticated | Failed

record exchange =
  clientResponse :: response
  upstreamRequests :: "request list"
  handshakeState :: handshake_state

text \<open>
  Modelled from the spec: the schemes of the challenge test of section 4.5,
  \<^verbatim>\<open>WWW-Authenticate contains NTLM|Negotiate\<close>.
\<close>

fun is_ntlm_scheme :: "challenge \<Rightarrow> bool" where
  "is_ntlm_scheme (NTLM token) = True"
| "is_ntlm_scheme (Negotiate token) = True"
| "is_ntlm_scheme (OtherScheme name) = False"

text \<open>
  Modelled from the spec: a response that starts a handshake (section 4.5), status 401
  with an NTLM or Negotiate scheme in \<^verbatim>\<open>WWW-Authenticate\<close>.
\<close>

definition isNtlmChallenge :: "response \<Rightarrow> bool" where
  "isNtlmChallenge r = (statusCode r = 401 \<and> list_ex is_ntlm_scheme (wwwAuthenticate r))"

text \<open>
  Modelled from the spec: the Type 2 message among the challenges of a response
  (\<^verbatim>\<open>receive 401 + Type2\<close>, section 4.5), if there is one.
\<close>

fun type2_token :: "challenge list \<Rightarrow> string option" where
  "type2_token [] = None"
| "type2_token (NTLM (Some token) # rest) = Some token"
| "type2_token (Negotiate (Some token) # rest) = Some token"
| "type2_token (other # rest) = type2_token rest"

text \<open>
  Modelled from the spec: \<^verbatim>\<open>receive 401 + Type2\<close> (section 4.5) as a test on a response.
\<close>

definition type2Of :: "response \<Rightarrow> string option" where
  "type2Of r = (if statusCode r = 401 then type2_token (wwwAuthenticate r) else None)"

text \<open>
  Modelled from the spec: the per-request state machine of the request interceptor
  (section 4.5), which is missing from the sources. \<open>lookupCredential\<close> is the
  credential lookup for the target host, \<open>upstream\<close> answers a request in state \<open>s\<close> and
  moves to a new state. The result is the response returned to the client, the requests
  sent upstream in order and the handshake state, or \<open>None\<close> where the specification
  does not say how the exchange goes on (the answer to Type 1 carries no Type 2).
\<close>

definition handleRequest ::
  "(string \<Rightarrow> credential option) \<Rightarrow> ntlm_engine \<Rightarrow> ('s \<Rightarrow> request \<Rightarrow> response \<times> 's)
     \<Rightarrow> handshake_state \<Rightarrow> 's \<Rightarrow> request \<Rightarrow> (exchange \<times> 's) option" where
  "handleRequest lookupCredential engine upstream hs s req =
     (case lookupCredential (reqHost req) of
        None \<Rightarrow>
          (let (r, s1) = upstream s req
           in Some (\<lparr>clientResponse = r, upstreamRequests = [req], handshakeState = hs\<rparr>, s1))
      | Some cred \<Rightarrow>
          (let (r0, s1) = upstream s req
           in if \<not> isNtlmChallenge r0
              then Some (\<lparr>clientResponse = r0, upstreamRequests = [req],
                           handshakeState = hs\<rparr>, s1)
              else
                (let q1 = req\<lparr>authorization := Some (Type1 (createType1 engine cred))\<rparr>;
                     (r1, s2) = upstream s1 q1
                 in case type2Of r1 of
                      None \<Rightarrow> None
                    | Some type2 \<Rightarrow>
                        (let q3 = req\<lparr>authorization :=
                                        Some (Type3 (createType3 engine cred type2))\<rparr>;
                             (r3, s3) = upstream s2 q3
                         in Some (\<lparr>clientResponse = r3,
                                    upstreamRequests = [req, q1, q3],
                                    handshakeState =
                                      (if isNtlmChallenge r3 then Idle else Authenticated)\<rparr>,
                                  s3)))))"

text \<open>
  An origin that demands NTLM: it answers a request without token by a bare challenge,
  a Type 1 by a Type 2, and a Type 3 by success. It keeps no state.
\<close>

definition ntlm_origin :: "unit \<Rightarrow> request \<Rightarrow> response \<times> unit" where
  "ntlm_origin s req =
     (case authorization req of
        None \<Rightarrow> (\<lparr>statusCode = 401, statusPhrase = ''Unauthorized'',
                   wwwAuthenticate = [NTLM None], respBody = []\<rparr>, ())
      | Some (Type1 t) \<Rightarrow> (\<lparr>statusCode = 401, statusPhrase = ''Unauthorized'',
                             wwwAuthenticate = [NTLM (Some ''type2'')], respBody = []\<rparr>, ())
      | Some (Type3 t) \<Rightarrow> (\<lparr>statusCode = 200, statusPhrase = ''OK'',
                             wwwAuthenticate = [], respBody = ''OK''\<rparr>, ()))"

text \<open>
  Modelled from the spec: the count \<^verbatim>\<open>upstreamProxyReqCount\<close> of the upstream proxy
  fixture of the tests (section 8, property 8), which is not among the sources: the
  requests sent on a route through the upstream proxy pass the fixture, the requests sent
  on a direct route do not.
\<close>

definition upstreamProxyReqCount :: "route \<Rightarrow> request list \<Rightarrow> nat" where
  "upstreamProxyReqCount r reqs = (case r of Direct \<Rightarrow> 0 | Via proxyUrl \<Rightarrow> length reqs)"

subsection \<open>Auxiliary definitions and sample values\<close>


text \<open>
  Sample values on which the theorems below are instantiated: two downstream sockets
  from the same host, a target, a manager with only \<^verbatim>\<open>HTTPS_PROXY\<close> configured, and a
  table holding a config-API context and an ordinary one.
\<close>

definition sample_socket1 :: socket where
  "sample_socket1 = \<lparr>socketId = 1, remoteAddress = Some ''127.0.0.1'', remotePort = Some 50001\<rparr>"

definition sample_socket2 :: socket where
  "sample_socket2 = \<lparr>socketId = 2, remoteAddress = Some ''127.0.0.1'', remotePort = Some 50002\<rparr>"

definition sample_socket3 :: socket where
  "sample_socket3 = \<lparr>socketId = 3, remoteAddress = Some ''10.0.0.7'', remotePort = Some 443\<rparr>"

definition sample_socket1b :: socket where
  "sample_socket1b = \<lparr>socketId = 4, remoteAddress = Some ''127.0.0.1'', remotePort = Some 50001\<rparr>"

definition sample_target :: complete_url where
  "sample_target = \<lparr>href = ''http://intranet:8080/'', isLocalhost = False\<rparr>"

definition sample_env :: process_env where
  "sample_env = \<lparr>NODE_TLS_REJECT_UNAUTHORIZED = Some ''0''\<rparr>"

definition sample_proxy_manager :: upstream_proxy_manager where
  "sample_proxy_manager =
     \<lparr>httpProxyUrl = None, httpsProxyUrl = Some ''http://proxy:3128'',
      noProxyBypass = (\<lambda>u. False)\<rparr>"

definition sample_agent :: agent where
  "sample_agent = \<lparr>agentKind = HttpAgent, agentOptions = None\<rparr>"

definition sample_blank_context :: connection_context where
  "sample_blank_context =
     \<lparr>clientAddress = [], contextAgent = sample_agent, clientSocket = None,
      socketCloseListener = RemoveAgentOnClose [], configApiConnection = False\<rparr>"

definition sample_api_context :: connection_context where
  "sample_api_context =
     \<lparr>clientAddress = ''127.0.0.1:50001'', contextAgent = sample_agent,
      clientSocket = Some sample_socket1,
      socketCloseListener = RemoveAgentOnClose ''127.0.0.1:50001'',
      configApiConnection = True\<rparr>"

definition sample_context :: connection_context where
  "sample_context =
     \<lparr>clientAddress = ''127.0.0.1:50002'', contextAgent = sample_agent,
      clientSocket = Some sample_socket2,
      socketCloseListener = RemoveAgentOnClose ''127.0.0.1:50002'',
      configApiConnection = False\<rparr>"

definition sample_manager :: connection_context_manager where
  "sample_manager =
     \<lparr>agentCount = 2,
      connectionContexts =
        [(''127.0.0.1:50001'', sample_api_context), (''127.0.0.1:50002'', sample_context)],
      tunnels = [(''127.0.0.1:50002'', \<lparr>client = sample_socket2, target = Some sample_socket3\<rparr>)],
      upstreamProxyManager = sample_proxy_manager,
      newConnectionContext = sample_blank_context\<rparr>"

definition sample_request :: request where
  "sample_request =
     \<lparr>reqMethod = GET, reqHost = ''intranet:8080'', reqPath = ''/get'', reqBody = [],
      authorization = None\<rparr>"

definition sample_engine :: ntlm_engine where
  "sample_engine =
     \<lparr>createType1 = (\<lambda>cred. ''type1''), createType3 = (\<lambda>cred type2. ''type3:'' @ type2)\<rparr>"

definition sample_url :: url_object where
  "sample_url = \<lparr>protocol = Some ''http:'', hostname = Some ''127.0.0.1'', port = Some ''2''\<rparr>"

definition sample_ports :: json where
  "sample_ports =
     JObject [(''configApiUrl'', JNumber 1), (''ntlmProxyUrl'', JString ''http://127.0.0.1:2'')]"

definition sample_empty_manager :: connection_context_manager where
  "sample_empty_manager =
     \<lparr>agentCount = 0, connectionContexts = [], tunnels = [],
      upstreamProxyManager = sample_proxy_manager,
      newConnectionContext = sample_blank_context\<rparr>"

subsection \<open>Agent options\<close>

lemma setUpstreamProxyConfig_keeps:
  "setUpstreamProxyConfig mgr t s opts = (u, opts') \<Longrightarrow>
     keepAlive opts' = keepAlive opts \<and> maxSockets opts' = maxSockets opts \<and>
     rejectUnauthorized opts' = rejectUnauthorized opts"
  by (auto simp: setUpstreamProxyConfig_def split: route.splits)

text \<open>
  C1. For every call to \<^verbatim>\<open>getAgent\<close>, whatever the SSL flag, the target, the environment
  and the upstream proxy configuration, the agent is built from options with
  \<open>maxSockets = 1\<close> and \<open>keepAlive = true\<close>.
\<close>

theorem getAgent_maxSockets_keepAlive:
  "\<exists>opts. agentOptions (getAgent mgr env isSSL targetHost) = Some opts
          \<and> maxSockets opts = 1 \<and> keepAlive opts = True"
  by (auto simp: getAgent_def Let_def setUpstreamProxyConfig_def split: route.splits prod.splits)

text \<open>
  C5. The \<open>rejectUnauthorized\<close> option of the agent \<^verbatim>\<open>getAgent\<close> builds is true if and
  only if \<^verbatim>\<open>NODE_TLS_REJECT_UNAUTHORIZED\<close> is unset or differs from \<^verbatim>\<open>"0"\<close>, and the
  target is not localhost.
\<close>

theorem getAgent_rejectUnauthorized:
  "\<exists>opts. agentOptions (getAgent mgr env isSSL targetHost) = Some opts
     \<and> (rejectUnauthorized opts \<longleftrightarrow>
          (NODE_TLS_REJECT_UNAUTHORIZED env = None \<or> NODE_TLS_REJECT_UNAUTHORIZED env \<noteq> Some ''0'')
          \<and> \<not> isLocalhost targetHost)"
  by (auto simp: getAgent_def Let_def setUpstreamProxyConfig_def nodeTlsRejectUnauthorized_def
      split: route.splits prod.splits option.splits)

text \<open>With the variable set to \<^verbatim>\<open>"0"\<close> the certificate of a remote target is not verified.\<close>

theorem getAgent_rejectUnauthorized_witness:
  "\<exists>opts. agentOptions (getAgent sample_proxy_manager sample_env True sample_target) = Some opts
     \<and> rejectUnauthorized opts = False"
  using getAgent_rejectUnauthorized [of sample_proxy_manager sample_env True sample_target]
  by (simp add: sample_env_def)

subsection \<open>Removing all contexts\<close>

lemma update_fresh_append:
  "k \<notin> fst ` set al \<Longrightarrow> AList.update k v al = al @ [(k, v)]"
  by (induction al) auto










subsection \<open>Removing one context\<close>

lemma colon_in_getClientAddress: "CHR '':'' \<in> set (getClientAddress s)"
  by (simp add: getClientAddress_def)

lemma no_colon_in_objectPrototypeNames:
  "k \<in> set objectPrototypeNames \<Longrightarrow> CHR '':'' \<notin> set k"
  by (auto simp: objectPrototypeNames_def)

text \<open>
  On the keys the manager makes itself, the client addresses, \<^verbatim>\<open>in\<close> is the test
  whether the table has the key.
\<close>

lemma js_in_getClientAddress:
  "js_in (getClientAddress s) table = has_key (getClientAddress s) table"
  using colon_in_getClientAddress [of s] no_colon_in_objectPrototypeNames [of "getClientAddress s"]
  by (auto simp: js_in_def)

lemma removeAgent_not_key:
  "\<not> has_key k (connectionContexts m) \<Longrightarrow>
   removeAgent m event k
     = (m, [], if k \<in> set objectPrototypeNames then Thrown TypeError else Returned)"
proof -
  assume "\<not> has_key k (connectionContexts m)"
  then have none: "map_of (connectionContexts m) k = None"
    by (simp add: has_key_def map_of_eq_None_iff)
  with \<open>\<not> has_key k (connectionContexts m)\<close> show ?thesis
    by (simp add: removeAgent_def js_in_def)
qed

lemma removeAgent_removes_key:
  "\<not> has_key k (connectionContexts (fst (removeAgent m event k)))"
proof (cases "map_of (connectionContexts m) k")
  case None
  then have nk: "\<not> has_key k (connectionContexts m)"
    by (simp add: has_key_def map_of_eq_None_iff)
  from removeAgent_not_key [OF this, of event] nk show ?thesis by simp
next
  case (Some stored)
  then have "has_key k (connectionContexts m)"
    by (auto simp: has_key_def dest: map_of_SomeD intro: rev_image_eqI)
  with Some show ?thesis
    by (simp add: removeAgent_def js_in_def has_key_def AList.delete_notin_dom)
qed

text \<open>
  C9. For every string that is not a key of the table, \<^verbatim>\<open>removeAgent\<close> leaves the
  manager, and with it the table and every stored context, as it is and makes no call on
  any socket or context, so nothing is destroyed. For a client address (any string with a
  colon, indeed any string that is not the name of a member of \<^verbatim>\<open>Object.prototype\<close>) the
  call returns; for such a name, \<^verbatim>\<open>toString\<close> say, it ends in a \<^verbatim>\<open>TypeError\<close>, still
  with nothing changed. Removing is idempotent: after \<^verbatim>\<open>removeAgent\<close> for an address, a
  second \<^verbatim>\<open>removeAgent\<close> for it changes nothing and makes no call.
\<close>

theorem removeAgent_absent_is_noop:
  "(\<not> has_key clientAddress' (connectionContexts m) \<longrightarrow>
      removeAgent m event clientAddress'
        = (m, [], if clientAddress' \<in> set objectPrototypeNames
                  then Thrown TypeError else Returned))
   \<and> (\<not> has_key clientAddress' (connectionContexts m) \<longrightarrow> CHR '':'' \<in> set clientAddress' \<longrightarrow>
        removeAgent m event clientAddress' = (m, [], Returned))
   \<and> removeAgent (fst (removeAgent m event clientAddress')) event' clientAddress'
       = (fst (removeAgent m event clientAddress'), [],
          if clientAddress' \<in> set objectPrototypeNames then Thrown TypeError else Returned)"
proof (intro conjI impI)
  assume "\<not> has_key clientAddress' (connectionContexts m)"
  then show "removeAgent m event clientAddress'
        = (m, [], if clientAddress' \<in> set objectPrototypeNames
                  then Thrown TypeError else Returned)"
    by (rule removeAgent_not_key)
next
  assume nk: "\<not> has_key clientAddress' (connectionContexts m)"
    and colon: "CHR '':'' \<in> set clientAddress'"
  from colon no_colon_in_objectPrototypeNames [of clientAddress']
  have "clientAddress' \<notin> set objectPrototypeNames" by blast
  with removeAgent_not_key [OF nk, of event]
  show "removeAgent m event clientAddress' = (m, [], Returned)" by simp
next
  show "removeAgent (fst (removeAgent m event clientAddress')) event' clientAddress'
       = (fst (removeAgent m event clientAddress'), [],
          if clientAddress' \<in> set objectPrototypeNames then Thrown TypeError else Returned)"
    by (rule removeAgent_not_key [OF removeAgent_removes_key])
qed

text \<open>
  No context of the sample manager is filed under \<^verbatim>\<open>10.0.0.7:443\<close>, nor under
  \<^verbatim>\<open>toString\<close>: the first removal returns, the second throws, neither changes
  anything.
\<close>

theorem removeAgent_absent_is_noop_witness:
  "\<not> has_key ''10.0.0.7:443'' (connectionContexts sample_manager)
   \<and> removeAgent sample_manager ''close'' ''10.0.0.7:443'' = (sample_manager, [], Returned)
   \<and> \<not> has_key ''toString'' (connectionContexts sample_manager)
   \<and> removeAgent sample_manager ''close'' ''toString'' = (sample_manager, [], Thrown TypeError)"
proof -
  have absent: "\<not> has_key ''10.0.0.7:443'' (connectionContexts sample_manager)"
    and absent': "\<not> has_key ''toString'' (connectionContexts sample_manager)"
    by (simp_all add: has_key_def sample_manager_def)
  have colon: "CHR '':'' \<in> set ''10.0.0.7:443''" by simp
  have name: "''toString'' \<in> set objectPrototypeNames"
    by (simp add: objectPrototypeNames_def)
  from removeAgent_absent_is_noop [of "''10.0.0.7:443''" sample_manager "''close''" "''close''"]
       absent colon
  have returns: "removeAgent sample_manager ''close'' ''10.0.0.7:443''
                   = (sample_manager, [], Returned)"
    by blast
  from removeAgent_absent_is_noop [of "''toString''" sample_manager "''close''" "''close''"]
       absent'
  have "removeAgent sample_manager ''close'' ''toString''
          = (sample_manager, [],
             if ''toString'' \<in> set objectPrototypeNames then Thrown TypeError else Returned)"
    by blast
  with name have throws: "removeAgent sample_manager ''close'' ''toString''
                            = (sample_manager, [], Thrown TypeError)"
    by simp
  from absent returns absent' throws show ?thesis by blast
qed

subsection \<open>Creating and finding contexts\<close>

lemma createConnectionContext_new:
  assumes "map_of (connectionContexts m) (getClientAddress sock) = None"
  shows "createConnectionContext m env sock isSSL targetHost =
     ((newConnectionContext m)
        \<lparr>clientAddress := getClientAddress sock,
         contextAgent := getAgent (upstreamProxyManager m) env isSSL targetHost,
         clientSocket := Some sock,
         socketCloseListener := RemoveAgentOnClose (getClientAddress sock)\<rparr>,
      m\<lparr>agentCount := agentCount m + 1,
        connectionContexts := connectionContexts m @
          [(getClientAddress sock,
            (newConnectionContext m)
              \<lparr>clientAddress := getClientAddress sock,
               contextAgent := getAgent (upstreamProxyManager m) env isSSL targetHost,
               clientSocket := Some sock,
               socketCloseListener := RemoveAgentOnClose (getClientAddress sock)\<rparr>)]\<rparr>,
      [SocketOnce sock ''close'' (RemoveAgentOnClose (getClientAddress sock)),
       DebugLog [''Created agent for client '' @ getClientAddress sock
                 @ '' to target '' @ href targetHost]])"
proof -
  from assms have "getClientAddress sock \<notin> fst ` set (connectionContexts m)"
    by (simp add: map_of_eq_None_iff)
  then show ?thesis
    by (simp add: createConnectionContext_def Let_def assms update_fresh_append)
qed

lemma createConnectionContext_stored:
  "map_of (connectionContexts m) (getClientAddress sock) = Some stored \<Longrightarrow>
   createConnectionContext m env sock isSSL targetHost = (stored, m, [])"
  by (simp add: createConnectionContext_def Let_def)

lemma createConnectionContext_files:
  "createConnectionContext m env sock isSSL targetHost = (ctx, m', effs) \<Longrightarrow>
   map_of (connectionContexts m') (getClientAddress sock) = Some ctx"
  by (auto simp: createConnectionContext_def Let_def AList.update_conv' split: option.splits)

text \<open>
  C4. \<^verbatim>\<open>createConnectionContext\<close> keeps at most one context per client address. For an
  address that is not yet a key it builds a context with the agent of \<^verbatim>\<open>getAgent\<close>,
  counts the agent, files the context under the address at the end of the table and
  registers the close listener on the socket. For an address that is a key it returns the
  stored context, leaves the manager as it is and makes no call. Either way, every later
  call with a socket of the same address returns that context, unchanged manager, no
  call; a table with one entry per address stays one; and
  \<^verbatim>\<open>getConnectionContextFromClientSocket\<close> returns the stored context when the address is
  a key and nothing otherwise.
\<close>

theorem createConnectionContext_one_per_address:
  assumes run: "createConnectionContext m env sock isSSL targetHost = (ctx, m', effs)"
  shows "(\<not> has_key (getClientAddress sock) (connectionContexts m) \<longrightarrow>
            ctx = (newConnectionContext m)
                    \<lparr>clientAddress := getClientAddress sock,
                     contextAgent := getAgent (upstreamProxyManager m) env isSSL targetHost,
                     clientSocket := Some sock,
                     socketCloseListener := RemoveAgentOnClose (getClientAddress sock)\<rparr>
            \<and> m' = m\<lparr>agentCount := agentCount m + 1,
                      connectionContexts :=
                        connectionContexts m @ [(getClientAddress sock, ctx)]\<rparr>
            \<and> SocketOnce sock ''close'' (socketCloseListener ctx) \<in> set effs)
       \<and> (has_key (getClientAddress sock) (connectionContexts m) \<longrightarrow>
            map_of (connectionContexts m) (getClientAddress sock) = Some ctx
            \<and> m' = m \<and> effs = [])
       \<and> (\<forall>env2 sock2 isSSL2 targetHost2.
            getClientAddress sock2 = getClientAddress sock \<longrightarrow>
              createConnectionContext m' env2 sock2 isSSL2 targetHost2 = (ctx, m', []))
       \<and> (wf_contexts (connectionContexts m) \<longrightarrow> wf_contexts (connectionContexts m'))
       \<and> getConnectionContextFromClientSocket m' sock = Some ctx
       \<and> (\<forall>sock2. getConnectionContextFromClientSocket m sock2
                    = (if has_key (getClientAddress sock2) (connectionContexts m)
                       then map_of (connectionContexts m) (getClientAddress sock2)
                       else None))"
proof (cases "map_of (connectionContexts m) (getClientAddress sock)")
  case None
  then have nk: "\<not> has_key (getClientAddress sock) (connectionContexts m)"
    by (simp add: has_key_def map_of_eq_None_iff)
  from createConnectionContext_files [OF run]
  have filed: "map_of (connectionContexts m') (getClientAddress sock) = Some ctx" .
  let ?ctx = "(newConnectionContext m)
                    \<lparr>clientAddress := getClientAddress sock,
                     contextAgent := getAgent (upstreamProxyManager m) env isSSL targetHost,
                     clientSocket := Some sock,
                     socketCloseListener := RemoveAgentOnClose (getClientAddress sock)\<rparr>"
  have res: "(ctx, m', effs) =
      (?ctx,
       m\<lparr>agentCount := agentCount m + 1,
         connectionContexts := connectionContexts m @ [(getClientAddress sock, ?ctx)]\<rparr>,
       [SocketOnce sock ''close'' (RemoveAgentOnClose (getClientAddress sock)),
        DebugLog [''Created agent for client '' @ getClientAddress sock
                  @ '' to target '' @ href targetHost]])"
    by (rule trans [OF run [symmetric] createConnectionContext_new [OF None]])
  from res have ctx: "ctx = ?ctx" by simp
  from res have "m' = m\<lparr>agentCount := agentCount m + 1,
         connectionContexts := connectionContexts m @ [(getClientAddress sock, ?ctx)]\<rparr>"
    by simp
  then have m': "m' = m\<lparr>agentCount := agentCount m + 1,
                      connectionContexts :=
                        connectionContexts m @ [(getClientAddress sock, ctx)]\<rparr>"
    by (simp add: ctx)
  from res have effs: "effs = [SocketOnce sock ''close'' (RemoveAgentOnClose (getClientAddress sock)),
       DebugLog [''Created agent for client '' @ getClientAddress sock
                 @ '' to target '' @ href targetHost]]"
    by simp
  have wf: "wf_contexts (connectionContexts m')" if "wf_contexts (connectionContexts m)"
    using that nk unfolding m' by (simp add: wf_contexts_def has_key_def ctx)
  have again: "createConnectionContext m' env2 sock2 isSSL2 targetHost2 = (ctx, m', [])"
    if "getClientAddress sock2 = getClientAddress sock" for env2 sock2 isSSL2 targetHost2
    using createConnectionContext_stored [of m' sock2 ctx] filed that by simp
  have look: "getConnectionContextFromClientSocket m sock2
                    = (if has_key (getClientAddress sock2) (connectionContexts m)
                       then map_of (connectionContexts m) (getClientAddress sock2)
                       else None)" for sock2
    by (simp add: getConnectionContextFromClientSocket_def has_key_def map_of_eq_None_iff)
  have once: "SocketOnce sock ''close'' (socketCloseListener ctx) \<in> set effs"
    unfolding effs ctx by simp
  have got: "getConnectionContextFromClientSocket m' sock = Some ctx"
    using filed by (simp add: getConnectionContextFromClientSocket_def)
  from nk ctx m' once wf again got look show ?thesis
    by blast
next
  case (Some stored)
  then have k: "has_key (getClientAddress sock) (connectionContexts m)"
    by (auto simp: has_key_def dest: map_of_SomeD intro: rev_image_eqI)
  from run createConnectionContext_stored [OF Some, of env isSSL targetHost]
  have eq: "ctx = stored" "m' = m" "effs = []" by simp_all
  have again: "createConnectionContext m' env2 sock2 isSSL2 targetHost2 = (ctx, m', [])"
    if "getClientAddress sock2 = getClientAddress sock" for env2 sock2 isSSL2 targetHost2
    using createConnectionContext_stored [of m sock2 stored] Some that eq by simp
  have look: "getConnectionContextFromClientSocket m sock2
                    = (if has_key (getClientAddress sock2) (connectionContexts m)
                       then map_of (connectionContexts m) (getClientAddress sock2)
                       else None)" for sock2
    by (simp add: getConnectionContextFromClientSocket_def has_key_def map_of_eq_None_iff)
  have got: "getConnectionContextFromClientSocket m' sock = Some ctx"
    using Some eq by (simp add: getConnectionContextFromClientSocket_def)
  have stored: "map_of (connectionContexts m) (getClientAddress sock) = Some ctx"
    using Some eq by simp
  from k eq(2,3) stored again got look show ?thesis
    by simp
qed


text \<open>
  A first call on the empty manager, then a call with another socket of the same address.
\<close>

theorem createConnectionContext_one_per_address_witness:
  "\<not> has_key (getClientAddress sample_socket1) (connectionContexts sample_empty_manager)
   \<and> agentCount (fst (snd (createConnectionContext sample_empty_manager sample_env
                              sample_socket1 False sample_target))) = 1
   \<and> wf_contexts (connectionContexts (fst (snd (createConnectionContext sample_empty_manager
                              sample_env sample_socket1 False sample_target))))
   \<and> createConnectionContext
         (fst (snd (createConnectionContext sample_empty_manager sample_env
                      sample_socket1 False sample_target)))
         sample_env sample_socket1b True sample_target
       = (fst (createConnectionContext sample_empty_manager sample_env
                 sample_socket1 False sample_target),
          fst (snd (createConnectionContext sample_empty_manager sample_env
                      sample_socket1 False sample_target)),
          [])"
proof -
  let ?r = "createConnectionContext sample_empty_manager sample_env sample_socket1 False
              sample_target"
  have run: "?r = (fst ?r, fst (snd ?r), snd (snd ?r))" by simp
  have nk: "\<not> has_key (getClientAddress sample_socket1) (connectionContexts sample_empty_manager)"
    by (simp add: has_key_def sample_empty_manager_def)
  have wf: "wf_contexts (connectionContexts sample_empty_manager)"
    by (simp add: wf_contexts_def sample_empty_manager_def)
  have same: "getClientAddress sample_socket1b = getClientAddress sample_socket1"
    by (simp add: getClientAddress_def sample_socket1b_def sample_socket1_def)
  note facts = createConnectionContext_one_per_address [OF run]
  from facts nk have "fst (snd ?r) = sample_empty_manager\<lparr>agentCount := agentCount sample_empty_manager + 1,
        connectionContexts := connectionContexts sample_empty_manager
           @ [(getClientAddress sample_socket1, fst ?r)]\<rparr>" by blast
  then have count: "agentCount (fst (snd ?r)) = 1"
    by (simp add: sample_empty_manager_def)
  from facts wf have wf': "wf_contexts (connectionContexts (fst (snd ?r)))" by blast
  from facts same have again: "createConnectionContext (fst (snd ?r)) sample_env sample_socket1b True
      sample_target = (fst ?r, fst (snd ?r), [])" by blast
  from nk count wf' again show ?thesis by blast
qed

subsection \<open>Routing a plain-HTTP target\<close>

text \<open>
  C7. With \<^verbatim>\<open>HTTP_PROXY\<close> unset and \<^verbatim>\<open>HTTPS_PROXY\<close> set, the route of a target that is
  not SSL is direct, whatever the \<^verbatim>\<open>NO_PROXY\<close> resolver says: \<^verbatim>\<open>getAgent\<close> builds a
  plain \<^verbatim>\<open>http.Agent\<close> with no proxy in its options, and none of the requests for the
  target is counted at the upstream proxy.
\<close>

theorem http_target_direct_when_only_https_proxy:
  "httpProxyUrl mgr = None \<Longrightarrow> httpsProxyUrl mgr = Some proxyUrl \<Longrightarrow>
     resolve mgr targetHost False = Direct
     \<and> agentKind (getAgent mgr env False targetHost) = HttpAgent
     \<and> (\<exists>opts. agentOptions (getAgent mgr env False targetHost) = Some opts
                \<and> upstreamProxy opts = None)
     \<and> upstreamProxyReqCount (resolve mgr targetHost False) reqs = 0"
  by (simp add: resolve_def relevantProxy_def getAgent_def setUpstreamProxyConfig_def
      upstreamProxyReqCount_def)

text \<open>
  The sample upstream proxy manager has only \<^verbatim>\<open>HTTPS_PROXY\<close>: it routes an SSL target
  through the proxy and a plain one direct.
\<close>

theorem http_target_direct_when_only_https_proxy_witness:
  "httpProxyUrl sample_proxy_manager = None
   \<and> httpsProxyUrl sample_proxy_manager = Some ''http://proxy:3128''
   \<and> resolve sample_proxy_manager sample_target False = Direct
   \<and> resolve sample_proxy_manager sample_target True = Via ''http://proxy:3128''
   \<and> upstreamProxyReqCount (resolve sample_proxy_manager sample_target False) [sample_request] = 0"
proof -
  have h1: "httpProxyUrl sample_proxy_manager = None"
    and h2: "httpsProxyUrl sample_proxy_manager = Some ''http://proxy:3128''"
    by (simp_all add: sample_proxy_manager_def)
  have via: "resolve sample_proxy_manager sample_target True = Via ''http://proxy:3128''"
    by (simp add: resolve_def relevantProxy_def isEmpty_def sample_proxy_manager_def)
  from http_target_direct_when_only_https_proxy [OF h1 h2, of sample_target sample_env "[sample_request]"]
    h1 h2 via
  show ?thesis by blast
qed

subsection \<open>Closing the tunnels\<close>

lemma loop_tunnels_eq:
  "removeAndCloseAllTunnels_loop table = map SocketEnd (List.map_filter (\<lambda>e. target (snd e)) table)"
  by (induction table) (auto simp: List.map_filter_simps split: option.splits)

lemma loop_tunnels_set:
  "SocketEnd s \<in> set (removeAndCloseAllTunnels_loop table)
     \<longleftrightarrow> (\<exists>(k, t) \<in> set table. target t = Some s)"
  by (induction table) (auto split: option.splits)

lemma addTunnel_target:
  "map_of (tunnels (addTunnel m client' target')) (getClientAddress client')
     = Some \<lparr>client = client', target = Some target'\<rparr>"
  by (simp add: addTunnel_def AList.update_conv')

text \<open>
  C6. \<^verbatim>\<open>removeAndCloseAllTunnels\<close> calls \<^verbatim>\<open>end\<close> on the target socket of every tunnel
  of the table, in the order of the table, and leaves the table empty. The calls it makes
  are these and the final log line: the manager ends the target side and no other socket,
  so no client-side socket is ended ahead of its target. (\<^verbatim>\<open>addTunnel\<close> stores every
  tunnel with its target.)
\<close>

theorem removeAndCloseAllTunnels_ends_targets:
  "removeAndCloseAllTunnels m event = (m', effs) \<Longrightarrow>
     m' = m\<lparr>tunnels := []\<rparr>
     \<and> effs = map SocketEnd (List.map_filter (\<lambda>e. target (snd e)) (tunnels m))
              @ [DebugLog [''Removed and closed all tunnels due to '' @ event]]
     \<and> (\<forall>(k, t) \<in> set (tunnels m). \<forall>s. target t = Some s \<longrightarrow> SocketEnd s \<in> set effs)
     \<and> (\<forall>s. SocketEnd s \<in> set effs \<longrightarrow> (\<exists>(k, t) \<in> set (tunnels m). target t = Some s))"
proof -
  assume run: "removeAndCloseAllTunnels m event = (m', effs)"
  then have m': "m' = m\<lparr>tunnels := []\<rparr>"
    and effs: "effs = removeAndCloseAllTunnels_loop (tunnels m)
                 @ [DebugLog [''Removed and closed all tunnels due to '' @ event]]"
    by (simp_all add: removeAndCloseAllTunnels_def)
  have ended: "SocketEnd s \<in> set effs \<longleftrightarrow> (\<exists>(k, t) \<in> set (tunnels m). target t = Some s)" for s
    unfolding effs using loop_tunnels_set [of s "tunnels m"] by simp
  from m' effs ended show ?thesis
    unfolding loop_tunnels_eq by blast
qed

text \<open>The sample manager has one tunnel; its target is ended.\<close>

theorem removeAndCloseAllTunnels_ends_targets_witness:
  "removeAndCloseAllTunnels sample_manager ''reset''
     = (sample_manager\<lparr>tunnels := []\<rparr>,
        [SocketEnd sample_socket3, DebugLog [''Removed and closed all tunnels due to reset'']])"
proof -
  have run: "removeAndCloseAllTunnels sample_manager ''reset''
      = (fst (removeAndCloseAllTunnels sample_manager ''reset''),
         snd (removeAndCloseAllTunnels sample_manager ''reset''))" by simp
  from removeAndCloseAllTunnels_ends_targets [OF run]
  have "fst (removeAndCloseAllTunnels sample_manager ''reset'') = sample_manager\<lparr>tunnels := []\<rparr>"
    and "snd (removeAndCloseAllTunnels sample_manager ''reset'')
       = map SocketEnd (List.map_filter (\<lambda>e. target (snd e)) (tunnels sample_manager))
              @ [DebugLog [''Removed and closed all tunnels due to '' @ ''reset'']]"
    by blast+
  then show ?thesis
    by (simp add: prod_eq_iff sample_manager_def)
qed

subsection \<open>Closing the facade\<close>

lemma run_facade_closes:
  "length (filter (\<lambda>c. c = ProxyClose) (snd (run_facade f calls)))
     + (if ntlmProxyListening (fst (run_facade f calls)) then 1 else 0)
   \<le> length (filter successful_listen calls) + (if ntlmProxyListening f then 1 else 0)"
proof (induction calls arbitrary: f)
  case Nil
  then show ?case by simp
next
  case (Cons call calls)
  show ?case
  proof (cases call)
    case (CallUse n)
    with Cons [of f] show ?thesis
      by (simp add: use_def case_prod_beta)
  next
    case (CallListen p err hp)
    show ?thesis
    proof (cases err)
      case None
      with CallListen Cons [of "f\<lparr>ntlmProxyListening := True\<rparr>"] show ?thesis
        by (simp add: listen_def case_prod_beta)
    next
      case (Some e)
      with CallListen Cons [of f] show ?thesis
        by (simp add: listen_def case_prod_beta)
    qed
  next
    case CallClose
    show ?thesis
    proof (cases "ntlmProxyListening f")
      case True
      with CallClose Cons [of "f\<lparr>ntlmProxyListening := False\<rparr>"] show ?thesis
        by (simp add: close_def case_prod_beta)
    next
      case False
      with CallClose Cons [of f] show ?thesis
        by (simp add: close_def case_prod_beta)
    qed
  qed
qed

text \<open>
  C10. \<^verbatim>\<open>close\<close> is idempotent: a \<^verbatim>\<open>close\<close> right after a \<^verbatim>\<open>close\<close> changes nothing
  and does not reach the underlying proxy; \<^verbatim>\<open>close\<close> on a facade that is not listening is
  a no-op, and on a listening facade it closes the proxy once and clears the flag. Over any
  sequence of calls on a new facade, the underlying proxy is closed at most as many times
  as \<^verbatim>\<open>listen\<close> succeeded.
\<close>

theorem close_idempotent:
  "close (fst (close f)) = (fst (close f), [])
   \<and> (\<not> ntlmProxyListening f \<longrightarrow> close f = (f, []))
   \<and> (ntlmProxyListening f \<longrightarrow> close f = (f\<lparr>ntlmProxyListening := False\<rparr>, [ProxyClose]))
   \<and> length (filter (\<lambda>c. c = ProxyClose) (snd (run_facade newHttpMitmProxyFacade calls)))
       \<le> length (filter successful_listen calls)"
proof -
  have "length (filter (\<lambda>c. c = ProxyClose) (snd (run_facade newHttpMitmProxyFacade calls)))
       \<le> length (filter successful_listen calls)"
    using run_facade_closes [of newHttpMitmProxyFacade calls]
    by (simp add: newHttpMitmProxyFacade_def split: if_splits)
  then show ?thesis by (simp add: close_def)
qed

text \<open>One successful listen and three closes: the proxy is closed once.\<close>

theorem close_idempotent_witness:
  "snd (run_facade newHttpMitmProxyFacade [CallListen 0 None 50123, CallClose, CallClose, CallClose])
     = [ProxyListen ''127.0.0.1'' 0, ProxyClose]
   \<and> close \<lparr>ntlmProxyListening = False\<rparr> = (\<lparr>ntlmProxyListening = False\<rparr>, [])
   \<and> close \<lparr>ntlmProxyListening = True\<rparr> = (\<lparr>ntlmProxyListening = False\<rparr>, [ProxyClose])"
proof -
  have run: "snd (run_facade newHttpMitmProxyFacade [CallListen 0 None 50123, CallClose, CallClose, CallClose])
     = [ProxyListen ''127.0.0.1'' 0, ProxyClose]"
    by (simp add: newHttpMitmProxyFacade_def listen_def close_def)
  from close_idempotent [of "\<lparr>ntlmProxyListening = False\<rparr>" "[]"]
       close_idempotent [of "\<lparr>ntlmProxyListening = True\<rparr>" "[]"] run
  show ?thesis by simp
qed

subsection \<open>Upstream requests per exchange\<close>

text \<open>
  C2. Let \<open>r0\<close>, \<open>r1\<close>, \<open>r3\<close> be the answers of the upstream side to the request as
  it came, to the request with the Type 1 message and to the request with the Type 3
  message. For a host with a credential, when \<open>r0\<close> is an NTLM challenge and \<open>r1\<close>
  carries the Type 2 message, the exchange is exactly these three upstream requests and the
  client receives \<open>r3\<close>. For a host without credential the exchange is exactly the one
  request, and the client receives \<open>r0\<close> as it is (a 401 included). The request method
  plays no part.
\<close>

theorem handshake_leg_count:
  fixes upstream :: "'s \<Rightarrow> request \<Rightarrow> response \<times> 's"
  assumes first: "upstream s req = (r0, s1)"
      and second: "upstream s1 (req\<lparr>authorization := Some (Type1 (createType1 engine cred))\<rparr>) = (r1, s2)"
      and third: "upstream s2 (req\<lparr>authorization := Some (Type3 (createType3 engine cred token))\<rparr>) = (r3, s3)"
  shows "(lookupCredential (reqHost req) = Some cred \<longrightarrow> isNtlmChallenge r0 \<longrightarrow>
            type2Of r1 = Some token \<longrightarrow>
            (\<exists>ex. handleRequest lookupCredential engine upstream hs s req = Some (ex, s3)
                  \<and> upstreamRequests ex =
                      [req,
                       req\<lparr>authorization := Some (Type1 (createType1 engine cred))\<rparr>,
                       req\<lparr>authorization := Some (Type3 (createType3 engine cred token))\<rparr>]
                  \<and> length (upstreamRequests ex) = 3
                  \<and> clientResponse ex = r3))
       \<and> (lookupCredential (reqHost req) = None \<longrightarrow>
            handleRequest lookupCredential engine upstream hs s req
              = Some (\<lparr>clientResponse = r0, upstreamRequests = [req], handshakeState = hs\<rparr>, s1))"
  using first second third
  by (simp add: handleRequest_def)


text \<open>
  A GET to the sample origin: three requests and a 200 with a credential, one request
  and the origin's 401 without.
\<close>

theorem handshake_leg_count_witness:
  "(\<exists>ex. handleRequest (\<lambda>h. Some SSO) sample_engine ntlm_origin Idle () sample_request
            = Some (ex, ())
          \<and> length (upstreamRequests ex) = 3 \<and> statusCode (clientResponse ex) = 200)
   \<and> (\<exists>ex. handleRequest (\<lambda>h. None) sample_engine ntlm_origin Idle () sample_request
            = Some (ex, ())
          \<and> length (upstreamRequests ex) = 1 \<and> statusCode (clientResponse ex) = 401)"
proof -
  let ?q1 = "sample_request\<lparr>authorization := Some (Type1 (createType1 sample_engine SSO))\<rparr>"
  let ?q3 = "sample_request\<lparr>authorization := Some (Type3 (createType3 sample_engine SSO ''type2''))\<rparr>"
  let ?r0 = "fst (ntlm_origin () sample_request)"
  let ?r1 = "fst (ntlm_origin () ?q1)"
  let ?r3 = "fst (ntlm_origin () ?q3)"
  have first: "ntlm_origin () sample_request = (?r0, ())" by (simp add: prod_eq_iff)
  have second: "ntlm_origin () ?q1 = (?r1, ())" by (simp add: prod_eq_iff)
  have third: "ntlm_origin () ?q3 = (?r3, ())" by (simp add: prod_eq_iff)
  have challenge: "isNtlmChallenge ?r0"
    by (simp add: isNtlmChallenge_def ntlm_origin_def sample_request_def)
  have type2: "type2Of ?r1 = Some ''type2''"
    by (simp add: type2Of_def ntlm_origin_def)
  have s0: "statusCode ?r0 = 401"
    by (simp add: ntlm_origin_def sample_request_def)
  have s3: "statusCode ?r3 = 200"
    by (simp add: ntlm_origin_def)
  from handshake_leg_count [where upstream = ntlm_origin and s = "()" and req = sample_request
         and engine = sample_engine and cred = SSO and token = "''type2''"
         and lookupCredential = "\<lambda>h. Some SSO" and hs = Idle, OF first second third]
       challenge type2 s3
  have configured: "\<exists>ex. handleRequest (\<lambda>h. Some SSO) sample_engine ntlm_origin Idle () sample_request
            = Some (ex, ())
          \<and> length (upstreamRequests ex) = 3 \<and> statusCode (clientResponse ex) = 200"
    by auto
  from handshake_leg_count [where upstream = ntlm_origin and s = "()" and req = sample_request
         and engine = sample_engine and cred = SSO and token = "''type2''"
         and lookupCredential = "\<lambda>h. None" and hs = Idle, OF first second third]
       s0
  have unconfigured: "\<exists>ex. handleRequest (\<lambda>h. None) sample_engine ntlm_origin Idle () sample_request
            = Some (ex, ())
          \<and> length (upstreamRequests ex) = 1 \<and> statusCode (clientResponse ex) = 401"
    by simp
  from configured unconfigured show ?thesis by blast
qed

subsection \<open>Reading the ports file\<close>

lemma validatePortsFile_non_string:
  assumes "property ports ''configApiUrl'' = Some v" "truthy v" "\<forall>s. v \<noteq> JString s"
      and "truthy_opt (property ports ''ntlmProxyUrl'')"
  shows "validatePortsFile urlParse ports = Inl TypeError"
proof -
  from assms(1) obtain props where "ports = JObject props" by (cases ports) simp_all
  then have "truthy ports" by simp
  moreover from assms(3) have "url_parse urlParse (Some v) = Inl TypeError"
    by (cases v) simp_all
  ultimately show ?thesis using assms(1,2,4)
    by (simp add: validatePortsFile_def truthy_opt_def)
qed

lemma parsePortsFile_non_string_url:
  assumes "jsonParse data = Inr ports"
      and "property ports ''configApiUrl'' = Some v" "truthy v" "\<forall>s. v \<noteq> JString s"
      and "truthy_opt (property ports ''ntlmProxyUrl'')"
  shows "parsePortsFile portsFile jsonParse urlParse (Some data) = Throws TypeError"
  using assms(1) validatePortsFile_non_string [OF assms(2-5), of urlParse]
  by (simp add: parsePortsFile_def)

text \<open>
  C8. \<^verbatim>\<open>parsePortsFile\<close> should call back with the ports when the file is valid and
  call back with an error in every other case. It does not on a ports file whose
  \<^verbatim>\<open>configApiUrl\<close> is the number 1: \<^verbatim>\<open>url.parse\<close> throws inside
  \<^verbatim>\<open>validatePortsFile\<close>, outside the \<^verbatim>\<open>try\<close> block, the exception leaves
  \<^verbatim>\<open>parsePortsFile\<close> and the callback is not called. (\<open>parsePortsFile_success_iff\<close> below
  states when the callback does receive the ports.)
\<close>

theorem parsePortsFile_throws_at_numeric_url:
  \<open>parsePortsFile ''/home/user/.local/share/cypress-ntlm-auth.port''
     (\<lambda>text. if text = ''{"configApiUrl":1,"ntlmProxyUrl":"http://127.0.0.1:2"}''
              then Inr sample_ports else Inl SyntaxError)
     (\<lambda>u. Inr sample_url)
     (Some ''{"configApiUrl":1,"ntlmProxyUrl":"http://127.0.0.1:2"}'')
   = Throws TypeError\<close>
proof -
  have v: "property sample_ports ''configApiUrl'' = Some (JNumber 1)"
    and n: "truthy_opt (property sample_ports ''ntlmProxyUrl'')"
    by (simp_all add: sample_ports_def truthy_opt_def)
  show ?thesis
    by (rule parsePortsFile_non_string_url [OF _ v _ _ n]) simp_all
qed

lemma parsePortsFile_success_iff:
  "parsePortsFile portsFile jsonParse urlParse file = Callback (Some ports) None
   \<longleftrightarrow> (\<exists>data c n uc un.
          file = Some data \<and> jsonParse data = Inr ports
          \<and> property ports ''configApiUrl'' = Some (JString c) \<and> c \<noteq> []
          \<and> property ports ''ntlmProxyUrl'' = Some (JString n) \<and> n \<noteq> []
          \<and> urlParse c = Inr uc \<and> \<not> lacks_part uc
          \<and> urlParse n = Inr un \<and> \<not> lacks_part un)"
proof
  assume ok: "parsePortsFile portsFile jsonParse urlParse file = Callback (Some ports) None"
  then obtain data where data: "file = Some data" "jsonParse data = Inr ports"
      and valid: "validatePortsFile urlParse ports = Inr True"
    by (auto simp: parsePortsFile_def split: option.splits sum.splits bool.splits if_splits)
  from valid have tr: "truthy_opt (property ports ''configApiUrl'')"
      "truthy_opt (property ports ''ntlmProxyUrl'')"
    by (auto simp: validatePortsFile_def split: if_splits)
  from valid tr obtain uc where uc: "url_parse urlParse (property ports ''configApiUrl'') = Inr uc"
      "\<not> lacks_part uc"
    by (auto simp: validatePortsFile_def split: if_splits sum.splits)
  from valid tr uc obtain un where un: "url_parse urlParse (property ports ''ntlmProxyUrl'') = Inr un"
      "\<not> lacks_part un"
    by (auto simp: validatePortsFile_def split: if_splits sum.splits)
  from uc(1) tr(1) obtain c where c: "property ports ''configApiUrl'' = Some (JString c)" "c \<noteq> []"
      "urlParse c = Inr uc"
    by (cases "(urlParse, property ports ''configApiUrl'')" rule: url_parse.cases)
       (auto simp: truthy_opt_def)
  from un(1) tr(2) obtain n where n: "property ports ''ntlmProxyUrl'' = Some (JString n)" "n \<noteq> []"
      "urlParse n = Inr un"
    by (cases "(urlParse, property ports ''ntlmProxyUrl'')" rule: url_parse.cases)
       (auto simp: truthy_opt_def)
  from data c n uc(2) un(2)
  show "\<exists>data c n uc un.
          file = Some data \<and> jsonParse data = Inr ports
          \<and> property ports ''configApiUrl'' = Some (JString c) \<and> c \<noteq> []
          \<and> property ports ''ntlmProxyUrl'' = Some (JString n) \<and> n \<noteq> []
          \<and> urlParse c = Inr uc \<and> \<not> lacks_part uc
          \<and> urlParse n = Inr un \<and> \<not> lacks_part un"
    by blast
next
  assume "\<exists>data c n uc un.
          file = Some data \<and> jsonParse data = Inr ports
          \<and> property ports ''configApiUrl'' = Some (JString c) \<and> c \<noteq> []
          \<and> property ports ''ntlmProxyUrl'' = Some (JString n) \<and> n \<noteq> []
          \<and> urlParse c = Inr uc \<and> \<not> lacks_part uc
          \<and> urlParse n = Inr un \<and> \<not> lacks_part un"
  then obtain data c n uc un where h: "file = Some data" "jsonParse data = Inr ports"
      "property ports ''configApiUrl'' = Some (JString c)" "c \<noteq> []"
      "property ports ''ntlmProxyUrl'' = Some (JString n)" "n \<noteq> []"
      "urlParse c = Inr uc" "\<not> lacks_part uc" "urlParse n = Inr un" "\<not> lacks_part un"
    by blast
  from h(3) obtain props where "ports = JObject props" by (cases ports) simp_all
  then have "truthy ports" by simp
  with h have "validatePortsFile urlParse ports = Inr True"
    by (simp add: validatePortsFile_def truthy_opt_def)
  with h(1,2) show "parsePortsFile portsFile jsonParse urlParse file = Callback (Some ports) None"
    by (simp add: parsePortsFile_def)
qed

end
